theory Spec2Isabelle
  imports Complex_Main "HOL-Library.Multiset"
begin

section \<open>Values exchanged with the Metabase server\<close>

text \<open>
  The Python exceptions that the handlers of \<^verbatim>\<open>metabase_clickhouse_app.py\<close> tell apart
  or that its own expressions raise. \<open>RequestException\<close> stands for the whole class
  \<^verbatim>\<open>requests.exceptions.RequestException\<close>.
\<close>

datatype exn =
  RequestException | AttributeError | IndexError | KeyError | TypeError | ValueError

text \<open>
  A table (\<^verbatim>\<open>pd.DataFrame\<close>) is the sequence of its rows; a row gives a cell to each column
  name. \<^verbatim>\<open>len(df)\<close> is \<open>length\<close>, \<^verbatim>\<open>pd.DataFrame()\<close> is \<open>[]\<close> and
  \<^verbatim>\<open>pd.concat(dfs, ignore_index=True)\<close> is \<open>concat\<close>. The value of an integer
  cell is a \<^verbatim>\<open>numpy.int64\<close>; floating point cells are not modelled.
\<close>

datatype cell = IntCell int | StrCell string

type_synonym row = "(string \<times> cell) list"

type_synonym dataframe = "row list"

text \<open>
  What a call of \<^verbatim>\<open>session.post\<close>, \<^verbatim>\<open>session.get\<close> or \<^verbatim>\<open>session.delete\<close> does: it raises, or it
  returns a response with a status code and a body. The body is given as the outcome of
  decoding it the way the caller does (\<^verbatim>\<open>response.json()\<close> and the \<^verbatim>\<open>.get\<close> calls on it): the
  fields read, or the exception the decoding raises.
\<close>

datatype 'a reply = Raises exn | Response nat "exn + 'a"

record MetabaseConfig =
  url :: string
  username :: string
  password :: string
  database_name :: string
  config_database_id :: "int option"

record dataset_query =
  query :: string
  database :: "int option"
  max_results :: int
  timeout :: int

text \<open>
  The body of a reply of \<^verbatim>\<open>/api/dataset\<close>: \<^verbatim>\<open>result.get('status')\<close>, \<^verbatim>\<open>result['error']\<close> when
  present, and the outcome of building the DataFrame from \<^verbatim>\<open>data.rows\<close> and \<^verbatim>\<open>data.cols\<close>.
\<close>

record payload =
  status :: "string option"
  error :: "string option"
  frame :: "exn + dataframe"

record db_entry =
  db_name :: "string option"
  db_id :: "int option"

text \<open>
  The server as one client sees it: the reply to each request, given the headers the
  client's session presents. It is a function of the request; within one call of the fetch
  engines below a client makes no request twice (for a page size other than 0), and every
  worker of a parallel fetch has a server view of its own.
\<close>

record server =
  post_session :: "(string \<rightharpoonup> string option) \<Rightarrow> string \<Rightarrow> string \<Rightarrow> string option reply"
  get_database :: "(string \<rightharpoonup> string option) \<Rightarrow> db_entry list reply"
  post_dataset :: "(string \<rightharpoonup> string option) \<Rightarrow> dataset_query \<Rightarrow> payload reply"
  delete_session :: "(string \<rightharpoonup> string option) \<Rightarrow> unit reply"

text \<open>
  The request, then \<^verbatim>\<open>response.raise_for_status()\<close> (an \<^verbatim>\<open>HTTPError\<close>, which is a
  \<^verbatim>\<open>RequestException\<close>, for the codes 400 to 599), then the decoding of the body.
\<close>

definition checked :: "'a reply \<Rightarrow> exn + 'a" where
  "checked r =
     (case r of
        Raises e \<Rightarrow> Inl e
      | Response code body \<Rightarrow>
          if 400 \<le> code \<and> code < 600 then Inl RequestException else body)"

section \<open>The client\<close>

record MetabaseClient =
  config :: MetabaseConfig
  headers :: "string \<rightharpoonup> string option"
  session_token :: "string option"
  database_id :: "int option"

text \<open>
  A method takes the client and the server and returns the client as it leaves it, with
  the exception it raises (\<open>Inl\<close>) or the value it returns (\<open>Inr\<close>).
\<close>

text \<open>
  The lines that \<^verbatim>\<open>get_database_id\<close> and \<^verbatim>\<open>execute_query\<close> write with \<^verbatim>\<open>logger.error\<close>, each as
  its message and the value formatted into it: \<^verbatim>\<open>Not authenticated. Call authenticate() first.\<close>,
  \<^verbatim>\<open>Database '{name}' not found\<close>, \<^verbatim>\<open>Failed to get database ID: {e}\<close>,
  \<^verbatim>\<open>Query failed with status: {status}\<close>, \<^verbatim>\<open>Error details: {error}\<close>,
  \<^verbatim>\<open>Query execution failed: {e}\<close> and \<^verbatim>\<open>Unexpected error during query execution: {e}\<close>. The
  lines of the levels info and warning are not modelled, nor are the log lines of the other
  methods.
\<close>

datatype log_line =
  Not_authenticated
  | Database_not_found string
  | Failed_to_get_database_id exn
  | Query_failed_with_status "string option"
  | Error_details string
  | Query_execution_failed exn
  | Unexpected_error exn

text \<open>\<^verbatim>\<open>MetabaseClient.__init__\<close>; of the session only the headers the client sets are kept.\<close>

definition new_client :: "MetabaseConfig \<Rightarrow> MetabaseClient" where
  "new_client cfg =
     \<lparr>config = cfg, headers = Map.empty, session_token = None,
      database_id = config_database_id cfg\<rparr>"

text \<open>Python truth values of an optional string and of an optional integer.\<close>

definition truthy_str :: "string option \<Rightarrow> bool" where
  "truthy_str t = (case t of None \<Rightarrow> False | Some s \<Rightarrow> s \<noteq> [])"

definition truthy_int :: "int option \<Rightarrow> bool" where
  "truthy_int i = (case i of None \<Rightarrow> False | Some n \<Rightarrow> n \<noteq> 0)"

text \<open>\<^verbatim>\<open>max_results or 100000\<close>.\<close>

definition py_or :: "int option \<Rightarrow> int \<Rightarrow> int" where
  "py_or m d = (case m of None \<Rightarrow> d | Some v \<Rightarrow> if v = 0 then d else v)"

definition authenticate :: "MetabaseClient \<Rightarrow> server \<Rightarrow> MetabaseClient \<times> (exn + bool)" where
  "authenticate self srv =
     (case checked (post_session srv (headers self) (username (config self))
                      (password (config self))) of
        Inl e \<Rightarrow> if e = RequestException then (self, Inr False) else (self, Inl e)
      | Inr tok \<Rightarrow>
          (self\<lparr>session_token := tok,
                headers := (headers self)(''X-Metabase-Session'' \<mapsto> tok)\<rparr>, Inr True))"

definition get_database_id ::
  "MetabaseClient \<Rightarrow> server \<Rightarrow> MetabaseClient \<times> log_line list \<times> (exn + int option)" where
  "get_database_id self srv =
     (if truthy_int (database_id self) then (self, [], Inr (database_id self))
      else
        case checked (get_database srv (headers self)) of
          Inl e \<Rightarrow>
            if e = RequestException then (self, [Failed_to_get_database_id e], Inr None)
            else (self, [], Inl e)
        | Inr databases \<Rightarrow>
            (case find (\<lambda>db. db_name db = Some (database_name (config self))) databases of
               Some db \<Rightarrow> (self\<lparr>database_id := db_id db\<rparr>, [], Inr (db_id db))
             | None \<Rightarrow>
                 (self, [Database_not_found (database_name (config self))], Inr None)))"

text \<open>\<^verbatim>\<open>query_payload\<close>, the request that \<^verbatim>\<open>execute_query\<close> posts; both constraints have the value
  \<open>max_results\<close>.\<close>

definition query_payload ::
  "MetabaseClient \<Rightarrow> string \<Rightarrow> int \<Rightarrow> int option \<Rightarrow> dataset_query" where
  "query_payload self sql_query tmo maxr =
     \<lparr>query = sql_query, database = database_id self, max_results = py_or maxr 100000,
      timeout = tmo\<rparr>"

text \<open>
  The \<^verbatim>\<open>try\<close> block of \<^verbatim>\<open>execute_query\<close>, with the error lines it logs: both handlers
  log the exception and return \<^verbatim>\<open>None\<close>; a payload whose status is not \<^verbatim>\<open>'completed'\<close> has its
  status logged, and its error text if it has one, and gives \<^verbatim>\<open>None\<close>.
\<close>

definition handler :: "exn \<Rightarrow> log_line list" where
  "handler e = (if e = RequestException then [Query_execution_failed e] else [Unexpected_error e])"

definition run_query ::
  "MetabaseClient \<Rightarrow> server \<Rightarrow> string \<Rightarrow> int \<Rightarrow> int option
     \<Rightarrow> log_line list \<times> dataframe option" where
  "run_query self srv sql_query tmo maxr =
     (case checked (post_dataset srv (headers self)
                      (query_payload self sql_query tmo maxr)) of
        Inl e \<Rightarrow> (handler e, None)
      | Inr result \<Rightarrow>
          if status result \<noteq> Some ''completed'' then
            (Query_failed_with_status (status result)
               # (case error result of Some msg \<Rightarrow> [Error_details msg] | None \<Rightarrow> []),
             None)
          else (case frame result of Inl e \<Rightarrow> (handler e, None) | Inr df \<Rightarrow> ([], Some df)))"

text \<open>
  \<^verbatim>\<open>execute_query\<close>, with the error lines logged during the call. The database id is
  resolved before the \<^verbatim>\<open>try\<close> block, so an exception of \<^verbatim>\<open>get_database_id\<close> leaves the call
  as an exception.
\<close>

definition execute_query_logged ::
  "MetabaseClient \<Rightarrow> server \<Rightarrow> string \<Rightarrow> int \<Rightarrow> int option
     \<Rightarrow> MetabaseClient \<times> log_line list \<times> (exn + dataframe option)" where
  "execute_query_logged self srv sql_query tmo maxr =
     (if \<not> truthy_str (session_token self) then (self, [Not_authenticated], Inr None)
      else if \<not> truthy_int (database_id self) then
        (case get_database_id self srv of
           (s1, lg, Inl e) \<Rightarrow> (s1, lg, Inl e)
         | (s1, lg, Inr i) \<Rightarrow>
             let s2 = s1\<lparr>database_id := i\<rparr> in
             if \<not> truthy_int (database_id s2) then (s2, lg, Inr None)
             else (case run_query s2 srv sql_query tmo maxr of
                     (lg', r) \<Rightarrow> (s2, lg @ lg', Inr r)))
      else (case run_query self srv sql_query tmo maxr of (lg, r) \<Rightarrow> (self, lg, Inr r)))"

text \<open>The call without its log: the client it leaves and what it raises or returns.\<close>

definition execute_query ::
  "MetabaseClient \<Rightarrow> server \<Rightarrow> string \<Rightarrow> int \<Rightarrow> int option
     \<Rightarrow> MetabaseClient \<times> (exn + dataframe option)" where
  "execute_query self srv sql_query tmo maxr =
     (case execute_query_logged self srv sql_query tmo maxr of (s, lg, r) \<Rightarrow> (s, r))"

definition logout :: "MetabaseClient \<Rightarrow> server \<Rightarrow> MetabaseClient" where
  "logout self srv =
     (if truthy_str (session_token self) then
        (case delete_session srv (headers self) of
           Raises e \<Rightarrow>
             self\<lparr>session_token := None,
                  headers := (headers self)(''X-Metabase-Session'' := None)\<rparr>
         | Response code body \<Rightarrow>
             self\<lparr>session_token := None,
                  headers := (headers self)(''X-Metabase-Session'' := None)\<rparr>)
      else self)"

section \<open>Query texts\<close>

fun digits :: "nat \<Rightarrow> string" where
  "digits n =
     (if n < 10 then [''0123456789'' ! n]
      else digits (n div 10) @ [''0123456789'' ! (n mod 10)])"

declare digits.simps [simp del]

text \<open>\<^verbatim>\<open>str\<close> of an integer, as an f-string renders it.\<close>

definition str_int :: "int \<Rightarrow> string" where
  "str_int i = (if i < 0 then CHR ''-'' # digits (nat (- i)) else digits (nat i))"

text \<open>\<^verbatim>\<open>sql_query.rstrip(';')\<close>.\<close>

definition rstrip_semicolon :: "string \<Rightarrow> string" where
  "rstrip_semicolon s = rev (dropWhile (\<lambda>ch. ch = CHR '';'') (rev s))"

definition paginated_query :: "string \<Rightarrow> int \<Rightarrow> int \<Rightarrow> string" where
  "paginated_query sql_query page_size offset =
     rstrip_semicolon sql_query @ '' LIMIT '' @ str_int page_size
       @ '' OFFSET '' @ str_int offset"

text \<open>
  The count query; \<open>indent\<close> is the indentation of the f-string's lines (8 columns in
  \<^verbatim>\<open>execute_query_with_parallel_pagination\<close>, 12 in \<^verbatim>\<open>execute_query_optimized\<close>).
\<close>

definition count_query :: "nat \<Rightarrow> string \<Rightarrow> string" where
  "count_query indent sql_query =
     [CHR 0x0A] @ replicate indent CHR '' '' @ ''SELECT COUNT('' @ ''*) as total_rows''
       @ [CHR 0x0A] @ replicate indent CHR '' '' @ ''FROM ('' @ rstrip_semicolon sql_query
       @ '') as subquery'' @ [CHR 0x0A] @ replicate indent CHR '' ''"

text \<open>\<^verbatim>\<open>count_df.iloc[0]['total_rows']\<close>.\<close>

definition total_rows_of :: "dataframe \<Rightarrow> exn + cell" where
  "total_rows_of count_df =
     (case count_df of
        [] \<Rightarrow> Inl IndexError
      | r # _ \<Rightarrow> (case map_of r ''total_rows'' of None \<Rightarrow> Inl KeyError | Some v \<Rightarrow> Inr v))"

section \<open>Sequential pagination\<close>

text \<open>
  The \<^verbatim>\<open>while True\<close> loop of \<^verbatim>\<open>execute_query_with_pagination\<close>, with its state: the client,
  \<^verbatim>\<open>all_dataframes\<close> and \<^verbatim>\<open>offset\<close>. The loop need not end; \<open>None\<close> is a run that never
  returns.
\<close>

partial_function (option) pagination_loop ::
  "server \<Rightarrow> string \<Rightarrow> int \<Rightarrow> MetabaseClient \<Rightarrow> dataframe list \<Rightarrow> int
     \<Rightarrow> (MetabaseClient \<times> (exn + dataframe list)) option" where
  "pagination_loop srv sql_query page_size self all_dataframes offset =
     (case execute_query self srv (paginated_query sql_query page_size offset) 300
             (Some page_size) of
        (s, Inl e) \<Rightarrow> Some (s, Inl e)
      | (s, Inr None) \<Rightarrow> Some (s, Inr all_dataframes)
      | (s, Inr (Some df)) \<Rightarrow>
          if length df = 0 then Some (s, Inr all_dataframes)
          else if int (length df) < page_size then Some (s, Inr (all_dataframes @ [df]))
          else pagination_loop srv sql_query page_size s (all_dataframes @ [df])
                 (offset + page_size))"

definition execute_query_with_pagination ::
  "MetabaseClient \<Rightarrow> server \<Rightarrow> string \<Rightarrow> int
     \<Rightarrow> (MetabaseClient \<times> (exn + dataframe option)) option" where
  "execute_query_with_pagination self srv sql_query page_size =
     (case pagination_loop srv sql_query page_size self [] 0 of
        None \<Rightarrow> None
      | Some (s, Inl e) \<Rightarrow> Some (s, Inl e)
      | Some (s, Inr all_dataframes) \<Rightarrow>
          if all_dataframes = [] then Some (s, Inr None)
          else Some (s, Inr (Some (concat all_dataframes))))"

section \<open>Parallel pagination\<close>

text \<open>
  \<^verbatim>\<open>fetch_page\<close>, the task of one page: its own client, against the server as this worker
  sees it. The final state of the worker's client is returned with the task's result
  \<^verbatim>\<open>(df, page_num)\<close>. An exception of \<^verbatim>\<open>authenticate\<close> or \<^verbatim>\<open>execute_query\<close> goes to the
  handler, which returns \<^verbatim>\<open>(None, page_num)\<close>.
\<close>

type_synonym page_task = "MetabaseClient \<times> (dataframe option \<times> nat)"

definition fetch_page ::
  "MetabaseConfig \<Rightarrow> server \<Rightarrow> string \<Rightarrow> int \<Rightarrow> nat \<Rightarrow> page_task" where
  "fetch_page cfg wsrv sql_query page_size page_num =
     (case authenticate (new_client cfg) wsrv of
        (thread_client, Inl e) \<Rightarrow> (thread_client, (None, page_num))
      | (thread_client, Inr False) \<Rightarrow> (thread_client, (None, page_num))
      | (thread_client, Inr True) \<Rightarrow>
          (case execute_query thread_client wsrv
                  (paginated_query sql_query page_size (int page_num * page_size)) 300
                  (Some page_size) of
             (tc, Inl e) \<Rightarrow> (tc, (None, page_num))
           | (tc, Inr df) \<Rightarrow>
               let tc' = logout tc wsrv in
               (case df of
                  Some d \<Rightarrow> if length d > 0 then (tc', (Some d, page_num))
                            else (tc', (None, page_num))
                | None \<Rightarrow> (tc', (None, page_num)))))"

text \<open>
  The loop over \<^verbatim>\<open>as_completed\<close>: the results of the tasks, in the order in which the tasks
  complete, are written to the slots of \<^verbatim>\<open>all_dataframes\<close>. A page number that arrives is
  that of a submitted task, hence an index of the list. The counter \<^verbatim>\<open>successful_pages\<close>
  only feeds a log line.
\<close>

fun collect ::
  "(dataframe option \<times> nat) list \<Rightarrow> dataframe option list \<Rightarrow> dataframe option list" where
  "collect [] all_dataframes = all_dataframes"
| "collect ((df, page_num) # completed) all_dataframes =
     (case df of
        Some d \<Rightarrow> collect completed (all_dataframes[page_num := Some d])
      | None \<Rightarrow> collect completed all_dataframes)"

text \<open>\<^verbatim>\<open>[df for df in all_dataframes if df is not None]\<close>.\<close>

fun not_none :: "'a option list \<Rightarrow> 'a list" where
  "not_none [] = []"
| "not_none (None # xs) = not_none xs"
| "not_none (Some x # xs) = x # not_none xs"

text \<open>The value of an integer in 64 bits, two's complement.\<close>

definition wrap64 :: "int \<Rightarrow> int" where
  "wrap64 x = (x + 9223372036854775808) mod 18446744073709551616 - 9223372036854775808"

text \<open>
  \<^verbatim>\<open>(total_rows + page_size - 1) // page_size\<close> on the cell read from the count. The cell is
  a \<^verbatim>\<open>numpy.int64\<close> and so are the sum and the quotient: the sum wraps around, the quotient
  is rounded down, and a division by 0 gives 0 (with a warning, no exception). The page
  size is a Python integer that fits 64 bits; outside this range NumPy promotes or refuses
  the operand, by its version, which is not modelled.
\<close>

definition total_pages_of :: "cell \<Rightarrow> int \<Rightarrow> exn + int" where
  "total_pages_of total_rows page_size =
     (case total_rows of
        StrCell s \<Rightarrow> Inl TypeError
      | IntCell t \<Rightarrow>
          if page_size = 0 then Inr 0
          else Inr (wrap64 (wrap64 (wrap64 (t + page_size) - 1) div page_size)))"

text \<open>
  \<^verbatim>\<open>execute_query_with_parallel_pagination\<close>. \<open>workers k\<close> is the server as the worker of
  page \<open>k\<close> sees it and \<open>order\<close> lists the pages in the order in which their tasks complete.
  The tasks submitted to the pool are returned, in page order, between the client and the
  value of the call. \<open>max_workers\<close> bounds how many tasks run at a time, which shows in
  \<open>order\<close> only; \<^verbatim>\<open>ThreadPoolExecutor\<close> raises \<^verbatim>\<open>ValueError\<close> for a pool without workers.
\<close>

definition execute_query_with_parallel_pagination ::
  "MetabaseClient \<Rightarrow> server \<Rightarrow> (nat \<Rightarrow> server) \<Rightarrow> nat list \<Rightarrow> string \<Rightarrow> int \<Rightarrow> int
     \<Rightarrow> MetabaseClient \<times> page_task list \<times> (exn + dataframe option)" where
  "execute_query_with_parallel_pagination self srv workers order sql_query page_size
       max_workers =
     (case execute_query self srv (count_query 8 sql_query) 300 (Some 1) of
        (s, Inl e) \<Rightarrow> (s, [], Inl e)
      | (s, Inr None) \<Rightarrow> (s, [], Inr None)
      | (s, Inr (Some count_df)) \<Rightarrow>
          (case total_rows_of count_df of
             Inl e \<Rightarrow> (s, [], Inl e)
           | Inr total_rows \<Rightarrow>
               (case total_pages_of total_rows page_size of
                  Inl e \<Rightarrow> (s, [], Inl e)
                | Inr total_pages \<Rightarrow>
                    if total_rows = IntCell 0 then (s, [], Inr (Some []))
                    else if max_workers \<le> 0 then (s, [], Inl ValueError)
                    else
                      let task = (\<lambda>page_num.
                            fetch_page (config self) (workers page_num) sql_query page_size
                              page_num);
                          all_dataframes =
                            collect (map (\<lambda>page_num. snd (task page_num)) order)
                              (replicate (nat total_pages) None);
                          valid_dataframes = not_none all_dataframes
                      in
                        (s, map task [0..<nat total_pages],
                         if valid_dataframes = [] then Inr None
                         else Inr (Some (concat valid_dataframes))))))"

section \<open>The strategy selector\<close>

text \<open>The \<^verbatim>\<open>auto\<close> branch of \<^verbatim>\<open>execute_query_optimized\<close>: the mode it selects.\<close>

definition auto_mode :: "MetabaseClient \<Rightarrow> server \<Rightarrow> string \<Rightarrow> MetabaseClient \<times> (exn + string)" where
  "auto_mode self srv sql_query =
     (case execute_query self srv (count_query 12 sql_query) 300 (Some 1) of
        (s, Inl e) \<Rightarrow> (s, Inl e)
      | (s, Inr None) \<Rightarrow> (s, Inr ''parallel'')
      | (s, Inr (Some count_df)) \<Rightarrow>
          (case total_rows_of count_df of
             Inl e \<Rightarrow> (s, Inl e)
           | Inr (StrCell t) \<Rightarrow> (s, Inl ValueError)
           | Inr (IntCell total_rows) \<Rightarrow>
               if total_rows \<le> 50000 then (s, Inr ''single'')
               else if total_rows \<le> 500000 then (s, Inr ''pagination'')
               else (s, Inr ''parallel'')))"

text \<open>The dispatch on the mode; the tasks of a parallel fetch are not part of the value.\<close>

definition run_mode ::
  "MetabaseClient \<Rightarrow> server \<Rightarrow> (nat \<Rightarrow> server) \<Rightarrow> nat list \<Rightarrow> string \<Rightarrow> string
     \<Rightarrow> (MetabaseClient \<times> (exn + dataframe option)) option" where
  "run_mode self srv workers order sql_query optimization_mode =
     (if optimization_mode = ''single'' then
        Some (execute_query self srv sql_query 300 (Some 100000))
      else if optimization_mode = ''pagination'' then
        execute_query_with_pagination self srv sql_query 25000
      else if optimization_mode = ''parallel'' then
        (case execute_query_with_parallel_pagination self srv workers order sql_query 50000 6 of
           (s, tasks, r) \<Rightarrow> Some (s, r))
      else
        (case execute_query_with_parallel_pagination self srv workers order sql_query 50000 6 of
           (s, tasks, r) \<Rightarrow> Some (s, r)))"

definition execute_query_optimized ::
  "MetabaseClient \<Rightarrow> server \<Rightarrow> (nat \<Rightarrow> server) \<Rightarrow> nat list \<Rightarrow> string \<Rightarrow> string
     \<Rightarrow> (MetabaseClient \<times> (exn + dataframe option)) option" where
  "execute_query_optimized self srv workers order sql_query optimization_mode =
     (if optimization_mode = ''auto'' then
        (case auto_mode self srv sql_query of
           (s, Inl e) \<Rightarrow> Some (s, Inl e)
         | (s, Inr mode) \<Rightarrow> run_mode s srv workers order sql_query mode)
      else run_mode self srv workers order sql_query optimization_mode)"

section \<open>Notions used in the statements\<close>

text \<open>The value that the client \<open>self\<close> gets for page \<open>k\<close> of a sequential fetch.\<close>

definition page_reply ::
  "MetabaseClient \<Rightarrow> server \<Rightarrow> string \<Rightarrow> int \<Rightarrow> nat \<Rightarrow> exn + dataframe option" where
  "page_reply self srv sql_query page_size k =
     snd (execute_query self srv (paginated_query sql_query page_size (int k * page_size)) 300
            (Some page_size))"

text \<open>
  A page after which the loop of \<^verbatim>\<open>execute_query_with_pagination\<close> goes on: a table that is
  not empty and has no fewer than \<open>page_size\<close> rows.
\<close>

definition full_page :: "int \<Rightarrow> exn + dataframe option \<Rightarrow> bool" where
  "full_page page_size r =
     (case r of
        Inr (Some df) \<Rightarrow> length df \<noteq> 0 \<and> \<not> int (length df) < page_size
      | _ \<Rightarrow> False)"

text \<open>The rows of a page; a page that failed has none.\<close>

definition page_rows :: "exn + dataframe option \<Rightarrow> dataframe" where
  "page_rows r = (case r of Inr (Some df) \<Rightarrow> df | _ \<Rightarrow> [])"

text \<open>The client after the first request of a sequential fetch.\<close>

definition after_first ::
  "MetabaseClient \<Rightarrow> server \<Rightarrow> string \<Rightarrow> int \<Rightarrow> MetabaseClient" where
  "after_first self srv sql_query page_size =
     fst (execute_query self srv (paginated_query sql_query page_size 0) 300 (Some page_size))"

text \<open>The table that the task of page \<open>k\<close> of a parallel fetch returns, if any.\<close>

definition page_result ::
  "MetabaseConfig \<Rightarrow> (nat \<Rightarrow> server) \<Rightarrow> string \<Rightarrow> int \<Rightarrow> nat \<Rightarrow> dataframe option" where
  "page_result cfg workers sql_query page_size k =
     fst (snd (fetch_page cfg (workers k) sql_query page_size k))"

section \<open>Example inputs\<close>

definition demo_config :: MetabaseConfig where
  "demo_config =
     \<lparr>url = ''https://metabase.example'', username = ''analyst'', password = ''secret'',
      database_name = ''Growth Team Clickhouse Connection'', config_database_id = None\<rparr>"

text \<open>A client that is logged in and knows its database.\<close>

definition demo_client :: MetabaseClient where
  "demo_client =
     \<lparr>config = demo_config, headers = [''X-Metabase-Session'' \<mapsto> Some ''tok''],
      session_token = Some ''tok'', database_id = Some 2\<rparr>"

text \<open>
  A server that accepts the login and the logout, lists the database and answers the
  queries as \<open>answer\<close> says.
\<close>

definition demo_server :: "(dataset_query \<Rightarrow> payload reply) \<Rightarrow> server" where
  "demo_server answer =
     \<lparr>post_session = (\<lambda>h u pw. Response 200 (Inr (Some ''tok''))),
      get_database = (\<lambda>h. Response 200
        (Inr [\<lparr>db_name = Some ''Growth Team Clickhouse Connection'', db_id = Some 2\<rparr>])),
      post_dataset = (\<lambda>h. answer),
      delete_session = (\<lambda>h. Response 204 (Inr ()))\<rparr>"

definition completed :: "dataframe \<Rightarrow> payload reply" where
  "completed df = Response 200 (Inr \<lparr>status = Some ''completed'', error = None, frame = Inr df\<rparr>)"

text \<open>A reply with a 200 status whose payload reports a failure with the text \<open>msg\<close>.\<close>

definition failed :: "string \<Rightarrow> payload reply" where
  "failed msg = Response 200 (Inr \<lparr>status = Some ''failed'', error = Some msg, frame = Inr []\<rparr>)"

definition count_frame :: "int \<Rightarrow> dataframe" where
  "count_frame n = [[(''total_rows'', IntCell n)]]"

definition ids :: "int list \<Rightarrow> dataframe" where
  "ids xs = map (\<lambda>i. [(''id'', IntCell i)]) xs"

text \<open>A server whose database listing is a JSON array, on which \<^verbatim>\<open>.get\<close> raises.\<close>

definition array_listing_server :: server where
  "array_listing_server =
     (demo_server (\<lambda>q. completed (ids [1])))\<lparr>get_database := (\<lambda>h. Response 200 (Inl AttributeError))\<rparr>"

text \<open>A server of three pages of two rows, the last one short.\<close>

definition three_pages :: "dataset_query \<Rightarrow> payload reply" where
  "three_pages q =
     (if query q = ''SELECT id FROM t LIMIT 2 OFFSET 0'' then completed (ids [0, 1])
      else if query q = ''SELECT id FROM t LIMIT 2 OFFSET 2'' then completed (ids [2, 3])
      else if query q = ''SELECT id FROM t LIMIT 2 OFFSET 4'' then completed (ids [4])
      else completed [])"

section \<open>Evaluation of the definitions\<close>

lemmas demo_defs = demo_config_def demo_client_def demo_server_def completed_def failed_def
  count_frame_def ids_def

lemmas client_defs = execute_query_def execute_query_logged_def run_query_def handler_def
  query_payload_def get_database_id_def
  authenticate_def logout_def checked_def truthy_str_def truthy_int_def py_or_def new_client_def

lemmas query_defs = paginated_query_def str_int_def digits.simps rstrip_semicolon_def

lemma paginated_query_example:
  "paginated_query ''SELECT id FROM t;'' 25000 50000 = ''SELECT id FROM t LIMIT 25000 OFFSET 50000''"
  by (simp add: query_defs)

section \<open>Arithmetic of the page count\<close>

lemma ceil_pages_aux:
  fixes t p :: int
  assumes "0 < p"
  shows "(t + p - 1) div p = - ((- t) div p)"
proof -
  define q where "q = (- t) div p"
  define r where "r = (- t) mod p"
  have r: "0 \<le> r" "r < p" using assms by (simp_all add: r_def)
  have "- t = p * q + r" by (simp add: q_def r_def)
  then have "t + p - 1 = p * (- q) + (p - 1 - r)" by (simp add: algebra_simps)
  moreover have "0 \<le> p - 1 - r" "p - 1 - r < p" using r by auto
  ultimately have "(t + p - 1) div p = - q" by (rule int_div_pos_eq)
  then show ?thesis by (simp add: q_def)
qed

lemma ceil_pages:
  fixes t p :: int
  assumes "0 < p"
  shows "(t + p - 1) div p = \<lceil>real_of_int t / real_of_int p\<rceil>"
proof -
  have "\<lfloor>real_of_int (- t) / real_of_int p\<rfloor> = (- t) div p"
    by (rule floor_divide_of_int_eq)
  then have "\<lceil>real_of_int t / real_of_int p\<rceil> = - ((- t) div p)"
    by (simp add: ceiling_def)
  with ceil_pages_aux[OF assms, of t] show ?thesis by simp
qed

lemma wrap64_id:
  "- 9223372036854775808 \<le> x \<Longrightarrow> x < 9223372036854775808 \<Longrightarrow> wrap64 x = x"
  by (simp add: wrap64_def)

lemma wrap64_pred: "wrap64 (wrap64 x - 1) = wrap64 (x - 1)"
proof -
  have "(x + 9223372036854775808) mod 18446744073709551616 - 1
          = (wrap64 x - 1) + 9223372036854775808"
    by (simp add: wrap64_def)
  then have "wrap64 (wrap64 x - 1)
      = ((x + 9223372036854775808) mod 18446744073709551616 - 1) mod 18446744073709551616
          - 9223372036854775808"
    by (simp add: wrap64_def)
  also have "\<dots> = (x + 9223372036854775808 - 1) mod 18446744073709551616
          - 9223372036854775808"
    by (simp only: mod_diff_left_eq)
  also have "\<dots> = wrap64 (x - 1)"
    by (simp add: wrap64_def algebra_simps)
  finally show ?thesis .
qed

lemma total_pages_exact:
  assumes "0 < t" and "0 < p" and "t + p - 1 < 9223372036854775808"
  shows "total_pages_of (IntCell t) p = Inr ((t + p - 1) div p)"
proof -
  have q0: "0 \<le> (t + p - 1) div p"
    using assms by (simp add: pos_imp_zdiv_nonneg_iff)
  have "(t + p - 1) div p \<le> (t + p - 1) div 1"
    using assms by (intro zdiv_mono2) auto
  then have q1: "(t + p - 1) div p \<le> t + p - 1" by simp
  have "wrap64 (wrap64 (t + p) - 1) = wrap64 (t + p - 1)"
    by (rule wrap64_pred)
  moreover have "wrap64 (t + p - 1) = t + p - 1" using assms by (intro wrap64_id) auto
  moreover have "wrap64 ((t + p - 1) div p) = (t + p - 1) div p"
    using assms q0 q1 by (intro wrap64_id) auto
  ultimately show ?thesis using assms by (simp add: total_pages_of_def)
qed

lemma snd_fetch_page: "snd (snd (fetch_page cfg w sql p k)) = k"
  by (simp add: fetch_page_def Let_def split: prod.split sum.split bool.split option.split)

section \<open>Logging out\<close>

text \<open>
  Claim C10. A call of \<^verbatim>\<open>logout\<close> on a client that holds a session token clears the token and
  removes the session header, whatever the server does with the logout request (also when
  the request raises), and leaves the rest of the client as it is; on a client without a
  token it changes nothing.
\<close>

theorem logout_clears_session:
  "(truthy_str (session_token self) \<longrightarrow>
      session_token (logout self srv) = None
      \<and> headers (logout self srv) = (headers self)(''X-Metabase-Session'' := None)
      \<and> config (logout self srv) = config self
      \<and> database_id (logout self srv) = database_id self)
   \<and> (\<not> truthy_str (session_token self) \<longrightarrow> logout self srv = self)"
  by (simp add: logout_def split: reply.split)

theorem logout_clears_session_witness:
  "truthy_str (session_token demo_client)
   \<and> delete_session ((demo_server three_pages)\<lparr>delete_session := (\<lambda>h. Raises RequestException)\<rparr>)
        (headers demo_client) = Raises RequestException
   \<and> session_token (logout demo_client
        ((demo_server three_pages)\<lparr>delete_session := (\<lambda>h. Raises RequestException)\<rparr>)) = None
   \<and> headers (logout demo_client
        ((demo_server three_pages)\<lparr>delete_session := (\<lambda>h. Raises RequestException)\<rparr>))
        ''X-Metabase-Session'' = None
   \<and> \<not> truthy_str (session_token (new_client demo_config))
   \<and> logout (new_client demo_config) (demo_server three_pages) = new_client demo_config"
  using logout_clears_session[of demo_client
      "(demo_server three_pages)\<lparr>delete_session := (\<lambda>h. Raises RequestException)\<rparr>"]
    logout_clears_session[of "new_client demo_config" "demo_server three_pages"]
  by (simp add: demo_defs truthy_str_def new_client_def)

section \<open>The parallel engine: page count and tasks\<close>

text \<open>
  Claim C9. When the count query of a parallel fetch succeeds and reports 0 rows, the call
  returns the empty table, not \<^verbatim>\<open>None\<close>, and submits no page task, whatever the page size
  is.
\<close>

theorem parallel_pagination_zero_rows:
  assumes "execute_query self srv (count_query 8 sql_query) 300 (Some 1)
             = (s, Inr (Some count_df))"
    and "total_rows_of count_df = Inr (IntCell 0)"
  shows "execute_query_with_parallel_pagination self srv workers order sql_query page_size
           max_workers = (s, [], Inr (Some []))"
  using assms by (simp add: execute_query_with_parallel_pagination_def total_pages_of_def)

theorem parallel_pagination_zero_rows_witness:
  "execute_query demo_client (demo_server (\<lambda>q. completed (count_frame 0)))
       (count_query 8 ''SELECT id FROM t'') 300 (Some 1)
     = (demo_client, Inr (Some (count_frame 0)))
   \<and> total_rows_of (count_frame 0) = Inr (IntCell 0)
   \<and> execute_query_with_parallel_pagination demo_client
        (demo_server (\<lambda>q. completed (count_frame 0)))
        (\<lambda>k. demo_server three_pages) [] ''SELECT id FROM t'' 50000 6
      = (demo_client, [], Inr (Some []))
   \<and> execute_query_with_parallel_pagination demo_client
        (demo_server (\<lambda>q. completed (count_frame 0)))
        (\<lambda>k. demo_server three_pages) [] ''SELECT id FROM t'' 0 6
      = (demo_client, [], Inr (Some []))"
proof -
  have c: "execute_query demo_client (demo_server (\<lambda>q. completed (count_frame 0)))
       (count_query 8 ''SELECT id FROM t'') 300 (Some 1)
     = (demo_client, Inr (Some (count_frame 0)))"
    by (simp add: client_defs demo_defs)
  have t: "total_rows_of (count_frame 0) = Inr (IntCell 0)"
    by (simp add: total_rows_of_def count_frame_def)
  from parallel_pagination_zero_rows[OF c t] c t show ?thesis by simp
qed

text \<open>
  Claim C5, as the code has it. When the count query of a parallel fetch reports \<open>t > 0\<close>
  rows, the page size is \<open>p > 0\<close> and \<open>t + p - 1\<close> fits a signed integer of 64 bits, the tasks
  submitted are those of the pages \<open>0, \<dots>, n - 1\<close> with \<open>n = (t + p - 1) div p\<close>, which is
  the ceiling of \<open>t / p\<close>; 600,000 rows in pages of 50,000 give 12 tasks.
\<close>

theorem parallel_pagination_page_tasks:
  assumes "execute_query self srv (count_query 8 sql_query) 300 (Some 1)
             = (s, Inr (Some count_df))"
    and "total_rows_of count_df = Inr (IntCell t)"
    and "0 < t" and "0 < page_size" and "t + page_size - 1 < 9223372036854775808"
    and "0 < max_workers"
  shows "map (\<lambda>task. snd (snd task))
           (fst (snd (execute_query_with_parallel_pagination self srv workers order sql_query
              page_size max_workers)))
         = [0..<nat ((t + page_size - 1) div page_size)]
       \<and> (t + page_size - 1) div page_size = \<lceil>real_of_int t / real_of_int page_size\<rceil>"
proof -
  from assms(3-5) have "total_pages_of (IntCell t) page_size
      = Inr ((t + page_size - 1) div page_size)"
    by (rule total_pages_exact)
  with assms ceil_pages[of page_size t] show ?thesis
    by (simp add: execute_query_with_parallel_pagination_def Let_def snd_fetch_page comp_def
        map_idI)
qed

theorem parallel_pagination_page_tasks_witness:
  "(0 :: int) < 600000 \<and> (0 :: int) < 50000
   \<and> (600000 :: int) + 50000 - 1 < 9223372036854775808
   \<and> length (fst (snd (execute_query_with_parallel_pagination demo_client
        (demo_server (\<lambda>q. completed (count_frame 600000)))
        (\<lambda>k. demo_server three_pages) (rev [0..<12]) ''SELECT id FROM t'' 50000 6))) = 12"
proof -
  have c: "execute_query demo_client (demo_server (\<lambda>q. completed (count_frame 600000)))
       (count_query 8 ''SELECT id FROM t'') 300 (Some 1)
     = (demo_client, Inr (Some (count_frame 600000)))"
    by (simp add: client_defs demo_defs)
  have t: "total_rows_of (count_frame 600000) = Inr (IntCell 600000)"
    by (simp add: total_rows_of_def count_frame_def)
  have "length (map (\<lambda>task. snd (snd task)) (fst (snd (execute_query_with_parallel_pagination demo_client
        (demo_server (\<lambda>q. completed (count_frame 600000)))
        (\<lambda>k. demo_server three_pages) (rev [0..<12]) ''SELECT id FROM t'' 50000 6)))) = 12"
    by (subst conjunct1[OF parallel_pagination_page_tasks[OF c t]]) simp_all
  then show ?thesis by simp
qed

text \<open>
  Without the bound the count of pages is not \<open>(t + p - 1) div p\<close>: for a count of
  \<open>2\<^sup>6\<^sup>3 - 1\<close> rows and pages of 50,000 the sum wraps around, the page count is negative
  and no task is submitted, where \<open>(t + p - 1) div p\<close> is 184,467,440,737,096.
\<close>

theorem parallel_pagination_page_tasks_counterexample:
  "total_rows_of (count_frame 9223372036854775807) = Inr (IntCell 9223372036854775807)
   \<and> total_pages_of (IntCell 9223372036854775807) 50000 = Inr (- 184467440737095)
   \<and> execute_query_with_parallel_pagination demo_client
        (demo_server (\<lambda>q. completed (count_frame 9223372036854775807)))
        (\<lambda>k. demo_server three_pages) [] ''SELECT id FROM t'' 50000 6
      = (demo_client, [], Inr None)
   \<and> (9223372036854775807 + 50000 - 1) div 50000 = (184467440737096 :: int)"
proof -
  have c: "execute_query demo_client
       (demo_server (\<lambda>q. completed (count_frame 9223372036854775807)))
       (count_query 8 ''SELECT id FROM t'') 300 (Some 1)
     = (demo_client, Inr (Some (count_frame 9223372036854775807)))"
    by (simp add: client_defs demo_defs)
  have t: "total_rows_of (count_frame 9223372036854775807)
      = Inr (IntCell 9223372036854775807)"
    by (simp add: total_rows_of_def count_frame_def)
  have n: "total_pages_of (IntCell 9223372036854775807) 50000 = Inr (- 184467440737095)"
    by (simp add: total_pages_of_def wrap64_def)
  have "execute_query_with_parallel_pagination demo_client
        (demo_server (\<lambda>q. completed (count_frame 9223372036854775807)))
        (\<lambda>k. demo_server three_pages) [] ''SELECT id FROM t'' 50000 6
      = (demo_client, [], Inr None)"
    by (simp add: execute_query_with_parallel_pagination_def c t n)
  with t n show ?thesis by simp
qed

section \<open>A second call sees what the first call saw\<close>

text \<open>
  \<^verbatim>\<open>execute_query\<close> changes the client only by resolving the database id. The client it
  leaves is the same for every query, and this client gets, for every query, the value the
  original client gets.
\<close>

lemma execute_query_unfold:
  "execute_query self srv q t m =
     (if \<not> truthy_str (session_token self) then (self, Inr None)
      else if \<not> truthy_int (database_id self) then
        (case get_database_id self srv of
           (s1, lg, Inl e) \<Rightarrow> (s1, Inl e)
         | (s1, lg, Inr i) \<Rightarrow>
             let s2 = s1\<lparr>database_id := i\<rparr> in
             if \<not> truthy_int (database_id s2) then (s2, Inr None)
             else (s2, Inr (snd (run_query s2 srv q t m))))
      else (self, Inr (snd (run_query self srv q t m))))"
  by (simp add: execute_query_def execute_query_logged_def Let_def
      split: prod.split sum.split)

lemma execute_query_no_token:
  "\<not> truthy_str (session_token self) \<Longrightarrow> execute_query self srv q t m = (self, Inr None)"
  by (simp add: execute_query_unfold)

lemma execute_query_ready:
  "truthy_str (session_token self) \<Longrightarrow> truthy_int (database_id self) \<Longrightarrow>
     execute_query self srv q t m = (self, Inr (snd (run_query self srv q t m)))"
  by (simp add: execute_query_unfold)

lemma get_database_id_cases:
  assumes "\<not> truthy_int (database_id self)"
  obtains
    (raises) e where "e \<noteq> RequestException" "get_database_id self srv = (self, [], Inl e)"
  | (found) i where "get_database_id self srv = (self\<lparr>database_id := i\<rparr>, [], Inr i)"
      "fst (get_database_id (self\<lparr>database_id := i\<rparr>) srv) = self\<lparr>database_id := i\<rparr>"
      "snd (snd (get_database_id (self\<lparr>database_id := i\<rparr>) srv)) = Inr i"
  | (missing) lg where "get_database_id self srv = (self, lg, Inr None)"
      "get_database_id (self\<lparr>database_id := None\<rparr>) srv
         = (self\<lparr>database_id := None\<rparr>, lg, Inr None)"
proof (cases "checked (get_database srv (headers self))")
  case (Inl e)
  show ?thesis
  proof (cases "e = RequestException")
    case True
    with Inl assms show ?thesis
      by (intro missing[of "[Failed_to_get_database_id e]"])
        (simp_all add: get_database_id_def truthy_int_def)
  next
    case False
    with Inl assms show ?thesis
      by (intro raises[of e]) (simp_all add: get_database_id_def)
  qed
next
  case (Inr databases)
  show ?thesis
  proof (cases "find (\<lambda>db. db_name db = Some (database_name (config self))) databases")
    case None
    with Inr assms show ?thesis
      by (intro missing[of "[Database_not_found (database_name (config self))]"])
        (simp_all add: get_database_id_def truthy_int_def)
  next
    case (Some db)
    with Inr assms show ?thesis
      by (intro found[of "db_id db"]) (simp_all add: get_database_id_def)
  qed
qed

lemma run_query_database:
  "run_query (self\<lparr>database_id := i\<rparr>) srv q t m
     = run_query (self\<lparr>database_id := j, database_id := i\<rparr>) srv q t m"
  by simp

lemma execute_query_again:
  "execute_query (fst (execute_query self srv q t m)) srv q' t' m' =
     (fst (execute_query self srv q t m), snd (execute_query self srv q' t' m'))"
proof (cases "truthy_str (session_token self)")
  case False
  then show ?thesis by (simp add: execute_query_no_token)
next
  case tok: True
  show ?thesis
  proof (cases "truthy_int (database_id self)")
    case True
    with tok show ?thesis by (simp add: execute_query_ready)
  next
    case False
    then show ?thesis
    proof (cases rule: get_database_id_cases[where srv = srv])
      case (raises e)
      with tok False show ?thesis by (simp add: execute_query_unfold)
    next
      case (found i)
      show ?thesis
      proof (cases "get_database_id (self\<lparr>database_id := i\<rparr>) srv")
        case (fields a b c)
        with found(2,3) have "get_database_id (self\<lparr>database_id := i\<rparr>) srv
            = (self\<lparr>database_id := i\<rparr>, b, Inr i)"
          by simp
        with found(1) tok False show ?thesis
          by (simp add: execute_query_unfold Let_def)
      qed
    next
      case (missing lg)
      with tok False show ?thesis
        by (simp add: execute_query_unfold Let_def truthy_int_def)
    qed
  qed
qed

lemma execute_query_fst:
  "fst (execute_query self srv q t m) = fst (execute_query self srv q' t' m')"
proof (cases "truthy_str (session_token self) \<and> \<not> truthy_int (database_id self)")
  case False
  then show ?thesis
    by (cases "truthy_str (session_token self)")
      (auto simp: execute_query_no_token execute_query_ready)
next
  case True
  then have db: "\<not> truthy_int (database_id self)" by simp
  from db show ?thesis
  proof (cases rule: get_database_id_cases[where srv = srv])
    case (raises e)
    with True show ?thesis by (simp add: execute_query_unfold)
  next
    case (found i)
    with True show ?thesis by (simp add: execute_query_unfold Let_def)
  next
    case (missing lg)
    with True show ?thesis by (simp add: execute_query_unfold Let_def truthy_int_def)
  qed
qed

section \<open>Sequential pagination\<close>

lemma execute_query_view:
  assumes "s = self \<or> s = after_first self srv sql p"
  shows "execute_query s srv q t m =
           (after_first self srv sql p, snd (execute_query self srv q t m))"
proof -
  have f: "fst (execute_query self srv q t m) = after_first self srv sql p"
    unfolding after_first_def by (rule execute_query_fst)
  from assms show ?thesis
  proof
    assume "s = self"
    with f show ?thesis by (simp add: prod_eq_iff)
  next
    assume "s = after_first self srv sql p"
    then show ?thesis
      unfolding after_first_def by (simp add: execute_query_again)
  qed
qed

lemma pagination_loop_step:
  assumes "s = self \<or> s = after_first self srv sql p"
  shows "pagination_loop srv sql p s acc (int k * p) =
     (case page_reply self srv sql p k of
        Inl e \<Rightarrow> Some (after_first self srv sql p, Inl e)
      | Inr None \<Rightarrow> Some (after_first self srv sql p, Inr acc)
      | Inr (Some df) \<Rightarrow>
          if length df = 0 then Some (after_first self srv sql p, Inr acc)
          else if int (length df) < p then Some (after_first self srv sql p, Inr (acc @ [df]))
          else pagination_loop srv sql p (after_first self srv sql p) (acc @ [df])
                 (int (Suc k) * p))"
proof -
  have off: "int k * p + p = int (Suc k) * p" by (simp add: algebra_simps)
  show ?thesis
    by (subst pagination_loop.simps)
      (simp add: execute_query_view[OF assms] page_reply_def off split: sum.split option.split)
qed

lemma pagination_loop_full:
  assumes "s = self \<or> s = after_first self srv sql p"
    and "full_page p (page_reply self srv sql p k)"
  shows "pagination_loop srv sql p s acc (int k * p) =
     pagination_loop srv sql p (after_first self srv sql p)
       (acc @ [page_rows (page_reply self srv sql p k)]) (int (Suc k) * p)"
  using assms(2)
  by (subst pagination_loop_step[OF assms(1)])
    (auto simp: full_page_def page_rows_def split: sum.splits option.splits)

lemma pagination_loop_last:
  assumes "s = self \<or> s = after_first self srv sql p"
    and "page_reply self srv sql p k = Inr r" and "\<not> full_page p (Inr r)"
  shows "pagination_loop srv sql p s acc (int k * p) =
     Some (after_first self srv sql p,
           Inr (if page_rows (Inr r) = [] then acc else acc @ [page_rows (Inr r)]))"
  using assms(2,3)
  by (subst pagination_loop_step[OF assms(1)])
    (auto simp: full_page_def page_rows_def split: sum.splits option.splits)

lemma pagination_loop_raises:
  assumes "s = self \<or> s = after_first self srv sql p"
    and "page_reply self srv sql p k = Inl e"
  shows "pagination_loop srv sql p s acc (int k * p) = Some (after_first self srv sql p, Inl e)"
  using assms(2) by (subst pagination_loop_step[OF assms(1)]) simp

lemma pagination_loop_run:
  assumes "s = self \<or> s = after_first self srv sql p"
  shows "\<forall>j<m. full_page p (page_reply self srv sql p j) \<Longrightarrow>
     pagination_loop srv sql p s acc 0 =
     pagination_loop srv sql p (if m = 0 then s else after_first self srv sql p)
       (acc @ map (\<lambda>j. page_rows (page_reply self srv sql p j)) [0..<m]) (int m * p)"
proof (induction m)
  case 0
  then show ?case by simp
next
  case (Suc m)
  let ?s = "if m = 0 then s else after_first self srv sql p"
  have inv: "?s = self \<or> ?s = after_first self srv sql p"
    using assms by simp
  from Suc.prems have full: "full_page p (page_reply self srv sql p m)" by simp
  from Suc have "pagination_loop srv sql p s acc 0 =
     pagination_loop srv sql p ?s
       (acc @ map (\<lambda>j. page_rows (page_reply self srv sql p j)) [0..<m]) (int m * p)"
    by simp
  also have "\<dots> = pagination_loop srv sql p (after_first self srv sql p)
       ((acc @ map (\<lambda>j. page_rows (page_reply self srv sql p j)) [0..<m])
          @ [page_rows (page_reply self srv sql p m)]) (int (Suc m) * p)"
    by (rule pagination_loop_full[OF inv full])
  finally show ?case by simp
qed

lemma pagination_loop_diverges:
  assumes all: "\<forall>j. full_page p (page_reply self srv sql p j)"
    and inv: "s = self \<or> s = after_first self srv sql p"
  shows "pagination_loop srv sql p s acc (int k * p) = None"
proof (rule ccontr)
  assume "pagination_loop srv sql p s acc (int k * p) \<noteq> None"
  then obtain y where y: "pagination_loop srv sql p s acc (int k * p) = Some y" by auto
  define P where "P = (\<lambda>srv' sql' p' s' (acc' :: dataframe list) off
      (y' :: MetabaseClient \<times> (exn + dataframe list)).
      \<not> (srv' = srv \<and> sql' = sql \<and> p' = p
         \<and> (s' = self \<or> s' = after_first self srv sql p) \<and> (\<exists>k. off = int k * p)))"
  have "P srv sql p s acc (int k * p) y"
  proof (rule pagination_loop.raw_induct[where P = P, OF _ y])
    fix f srv' sql' p' s' acc' off y'
    assume IH: "\<And>a b c d e g h. f a b c d e g = Some h \<Longrightarrow> P a b c d e g h"
      and step: "(case execute_query s' srv' (paginated_query sql' p' off) 300 (Some p') of
          (s, Inl e) \<Rightarrow> Some (s, Inl e)
        | (s, Inr None) \<Rightarrow> Some (s, Inr acc')
        | (s, Inr (Some df)) \<Rightarrow>
            if length df = 0 then Some (s, Inr acc')
            else if int (length df) < p' then Some (s, Inr (acc' @ [df]))
            else f srv' sql' p' s (acc' @ [df]) (off + p')) = Some y'"
    show "P srv' sql' p' s' acc' off y'"
      unfolding P_def
    proof
      assume a: "srv' = srv \<and> sql' = sql \<and> p' = p
        \<and> (s' = self \<or> s' = after_first self srv sql p) \<and> (\<exists>k. off = int k * p)"
      then obtain j where j: "off = int j * p" by auto
      from a have inv': "s' = self \<or> s' = after_first self srv sql p" by simp
      from all have "full_page p (page_reply self srv sql p j)" by simp
      then obtain df where df: "page_reply self srv sql p j = Inr (Some df)"
        "length df \<noteq> 0" "\<not> int (length df) < p"
        by (auto simp: full_page_def split: sum.splits option.splits)
      have off: "int j * p + p = int (Suc j) * p" by (simp add: algebra_simps)
      from step a j df have "f srv sql p (after_first self srv sql p) (acc' @ [df])
          (int (Suc j) * p) = Some y'"
        by (simp add: execute_query_view[OF inv'] page_reply_def off)
      from IH[OF this] show False unfolding P_def by blast
    qed
  qed
  with inv show False unfolding P_def by blast
qed


lemma pagination_loop_stops:
  assumes full: "\<forall>k<m. full_page p (page_reply self srv sql p k)"
    and last: "page_reply self srv sql p m = Inr r" "\<not> full_page p (Inr r)"
  shows "pagination_loop srv sql p self [] 0 =
     Some (after_first self srv sql p,
       Inr (if page_rows (Inr r) = [] then map (\<lambda>j. page_rows (page_reply self srv sql p j)) [0..<m]
            else map (\<lambda>j. page_rows (page_reply self srv sql p j)) [0..<Suc m]))"
proof -
  let ?s = "if m = 0 then self else after_first self srv sql p"
  have inv: "?s = self \<or> ?s = after_first self srv sql p" by simp
  have "pagination_loop srv sql p self [] 0 =
     pagination_loop srv sql p ?s
       ([] @ map (\<lambda>j. page_rows (page_reply self srv sql p j)) [0..<m]) (int m * p)"
    by (rule pagination_loop_run[OF _ full]) simp
  also have "\<dots> = Some (after_first self srv sql p,
      Inr (if page_rows (Inr r) = []
           then [] @ map (\<lambda>j. page_rows (page_reply self srv sql p j)) [0..<m]
           else ([] @ map (\<lambda>j. page_rows (page_reply self srv sql p j)) [0..<m])
                  @ [page_rows (Inr r)]))"
    by (rule pagination_loop_last[OF inv last])
  finally show ?thesis using last(1) by simp
qed

lemma pagination_loop_stops_raising:
  assumes full: "\<forall>k<m. full_page p (page_reply self srv sql p k)"
    and last: "page_reply self srv sql p m = Inl e"
  shows "pagination_loop srv sql p self [] 0 = Some (after_first self srv sql p, Inl e)"
proof -
  let ?s = "if m = 0 then self else after_first self srv sql p"
  have inv: "?s = self \<or> ?s = after_first self srv sql p" by simp
  have "pagination_loop srv sql p self [] 0 =
     pagination_loop srv sql p ?s
       ([] @ map (\<lambda>j. page_rows (page_reply self srv sql p j)) [0..<m]) (int m * p)"
    by (rule pagination_loop_run[OF _ full]) simp
  also have "\<dots> = Some (after_first self srv sql p, Inl e)"
    by (rule pagination_loop_raises[OF inv last])
  finally show ?thesis .
qed

lemma full_page_rows: "full_page p r \<Longrightarrow> page_rows r \<noteq> []"
  by (auto simp: full_page_def page_rows_def split: sum.splits option.splits)

lemma sequential_result:
  assumes full: "\<forall>k<m. full_page p (page_reply self srv sql p k)"
    and last: "page_reply self srv sql p m = Inr r" "\<not> full_page p (Inr r)"
  shows "execute_query_with_pagination self srv sql p =
     Some (after_first self srv sql p,
       Inr (if m = 0 \<and> page_rows (Inr r) = [] then None
            else Some (concat (map (\<lambda>k. page_rows (page_reply self srv sql p k)) [0..<Suc m]))))"
proof (cases "m = 0")
  case True
  with pagination_loop_stops[OF full last] last(1) show ?thesis
    by (simp add: execute_query_with_pagination_def)
next
  case False
  then have "page_rows (page_reply self srv sql p 0) \<noteq> []"
    using full full_page_rows by blast
  with False have ne: "map (\<lambda>j. page_rows (page_reply self srv sql p j)) [0..<m] \<noteq> []"
    by simp
  with False pagination_loop_stops[OF full last] last(1) show ?thesis
    by (simp add: execute_query_with_pagination_def)
qed

lemma sequential_terminates_iff:
  "execute_query_with_pagination self srv sql p \<noteq> None
     \<longleftrightarrow> (\<exists>m. \<not> full_page p (page_reply self srv sql p m))"
proof
  assume t: "execute_query_with_pagination self srv sql p \<noteq> None"
  show "\<exists>m. \<not> full_page p (page_reply self srv sql p m)"
  proof (rule ccontr)
    assume "\<not> (\<exists>m. \<not> full_page p (page_reply self srv sql p m))"
    then have "\<forall>j. full_page p (page_reply self srv sql p j)" by simp
    then have "pagination_loop srv sql p self [] (int 0 * p) = None"
      by (rule pagination_loop_diverges) simp
    then have "pagination_loop srv sql p self [] 0 = None" by simp
    with t show False by (simp add: execute_query_with_pagination_def)
  qed
next
  assume "\<exists>m. \<not> full_page p (page_reply self srv sql p m)"
  then obtain m where m: "\<not> full_page p (page_reply self srv sql p m)"
    and least: "\<forall>k<m. full_page p (page_reply self srv sql p k)"
    using exists_least_iff[of "\<lambda>m. \<not> full_page p (page_reply self srv sql p m)"] by auto
  show "execute_query_with_pagination self srv sql p \<noteq> None"
  proof (cases "page_reply self srv sql p m")
    case (Inl e)
    from pagination_loop_stops_raising[OF least Inl] show ?thesis
      by (simp add: execute_query_with_pagination_def)
  next
    case (Inr r)
    with m sequential_result[OF least Inr] show ?thesis by simp
  qed
qed

text \<open>
  Claim C4. A sequential fetch with page size \<open>p\<close> asks for the pages
  \<^verbatim>\<open>LIMIT p OFFSET k*p\<close>, \<open>k = 0, 1, 2, \<dots>\<close> (\<open>page_reply\<close> is the value of that request). It
  returns exactly when some page is not a full one, that is, when a page has fewer than \<open>p\<close>
  rows, is empty or gives no result. If the pages before page \<open>m\<close> are full and page \<open>m\<close> is
  the first that is not (and raises nothing), the call returns the rows of the pages
  \<open>0, \<dots>, m\<close> in this order, an empty or failed last page adding nothing; it returns
  \<^verbatim>\<open>None\<close> when nothing was accumulated.
\<close>

theorem execute_query_with_pagination_pages:
  "(execute_query_with_pagination self srv sql_query page_size \<noteq> None
      \<longleftrightarrow> (\<exists>m. \<not> full_page page_size (page_reply self srv sql_query page_size m)))
   \<and> (\<forall>m r. (\<forall>k<m. full_page page_size (page_reply self srv sql_query page_size k))
          \<and> page_reply self srv sql_query page_size m = Inr r
          \<and> \<not> full_page page_size (Inr r)
        \<longrightarrow> execute_query_with_pagination self srv sql_query page_size =
              Some (after_first self srv sql_query page_size,
                Inr (if m = 0 \<and> page_rows (Inr r) = [] then None
                     else Some (concat (map
                       (\<lambda>k. page_rows (page_reply self srv sql_query page_size k))
                       [0..<Suc m])))))"
  using sequential_terminates_iff sequential_result by blast

theorem execute_query_with_pagination_pages_witness:
  "full_page 2 (page_reply demo_client (demo_server three_pages) ''SELECT id FROM t;'' 2 0)
   \<and> full_page 2 (page_reply demo_client (demo_server three_pages) ''SELECT id FROM t;'' 2 1)
   \<and> page_reply demo_client (demo_server three_pages) ''SELECT id FROM t;'' 2 2
       = Inr (Some (ids [4]))
   \<and> \<not> full_page 2 (Inr (Some (ids [4])))
   \<and> execute_query_with_pagination demo_client (demo_server three_pages)
        ''SELECT id FROM t;'' 2 = Some (demo_client, Inr (Some (ids [0, 1, 2, 3, 4])))"
proof -
  let ?page = "page_reply demo_client (demo_server three_pages) ''SELECT id FROM t;'' 2"
  have p0: "?page 0 = Inr (Some (ids [0, 1]))"
    by (simp add: page_reply_def client_defs demo_defs three_pages_def query_defs)
  have p1: "?page 1 = Inr (Some (ids [2, 3]))"
    by (simp add: page_reply_def client_defs demo_defs three_pages_def query_defs)
  have p2: "?page 2 = Inr (Some (ids [4]))"
    by (simp add: page_reply_def client_defs demo_defs three_pages_def query_defs)
  have f0: "full_page 2 (?page 0)"
    unfolding p0 by (simp add: full_page_def ids_def)
  have f1: "full_page 2 (?page 1)"
    unfolding p1 by (simp add: full_page_def ids_def)
  have f2: "\<not> full_page 2 (Inr (Some (ids [4])))"
    by (simp add: full_page_def ids_def)
  have full: "\<forall>k<2. full_page 2 (?page k)"
    using f0 f1 by (simp add: less_Suc_eq numeral_2_eq_2)
  have a: "after_first demo_client (demo_server three_pages) ''SELECT id FROM t;'' 2
      = demo_client"
    by (simp add: after_first_def execute_query_ready demo_client_def truthy_str_def
        truthy_int_def)
  have "execute_query_with_pagination demo_client (demo_server three_pages)
        ''SELECT id FROM t;'' 2 = Some (demo_client, Inr (Some (ids [0, 1, 2, 3, 4])))"
  proof -
    have u: "[0..<Suc 2] = [0, Suc 0, 2]"
      by (simp add: upt_rec)
    have rows: "concat (map (\<lambda>k. page_rows (?page k)) [0..<Suc 2]) = ids [0, 1, 2, 3, 4]"
      unfolding u using p0 p1 p2 by (simp add: page_rows_def ids_def)
    from execute_query_with_pagination_pages[of demo_client "demo_server three_pages"
        "''SELECT id FROM t;''" 2]
    have "(\<forall>k<2. full_page 2 (?page k)) \<and> ?page 2 = Inr (Some (ids [4]))
          \<and> \<not> full_page 2 (Inr (Some (ids [4])))
        \<longrightarrow> execute_query_with_pagination demo_client (demo_server three_pages)
              ''SELECT id FROM t;'' 2 =
            Some (after_first demo_client (demo_server three_pages) ''SELECT id FROM t;'' 2,
              Inr (if (2::nat) = 0 \<and> page_rows (Inr (Some (ids [4]))) = [] then None
                   else Some (concat (map (\<lambda>k. page_rows (?page k)) [0..<Suc 2]))))"
      by blast
    with full p2 f2 show ?thesis by (simp only: a rows) simp
  qed
  with f0 f1 p2 f2 show ?thesis by simp
qed

section \<open>The parallel engine: assembling the pages\<close>

lemma length_collect: "length (collect cs slots) = length slots"
  by (induction cs slots rule: collect.induct) (auto split: option.split)

lemma collect_nth:
  "k < length slots \<Longrightarrow>
     collect (map (\<lambda>i. (f i, i)) order) slots ! k =
       (if k \<in> set order \<and> f k \<noteq> None then f k else slots ! k)"
proof (induction order arbitrary: slots)
  case Nil
  then show ?case by simp
next
  case (Cons a order)
  show ?case
  proof (cases "f a")
    case None
    with Cons show ?thesis by auto
  next
    case (Some d)
    with Cons.prems Cons.IH[of "slots[a := Some d]"] show ?thesis
      by (cases "a = k") auto
  qed
qed

lemma collect_all:
  assumes "set order = {0..<n}"
  shows "collect (map (\<lambda>i. (f i, i)) order) (replicate n None) = map f [0..<n]"
  by (rule nth_equalityI) (auto simp: length_collect collect_nth assms)

lemma task_result:
  "snd (fetch_page cfg (workers k) sql p k) = (page_result cfg workers sql p k, k)"
  using snd_fetch_page[of cfg "workers k" sql p k]
  by (simp add: page_result_def prod_eq_iff)

lemma parallel_assembled:
  assumes count: "execute_query self srv (count_query 8 sql) 300 (Some 1)
             = (s, Inr (Some count_df))"
    and rows: "total_rows_of count_df = Inr (IntCell t)" "t \<noteq> 0"
    and pages: "total_pages_of (IntCell t) p = Inr n"
    and pool: "0 < mw"
    and order: "mset order = mset [0..<nat n]"
  shows "execute_query_with_parallel_pagination self srv workers order sql p mw =
     (s, map (\<lambda>k. fetch_page (config self) (workers k) sql p k) [0..<nat n],
      if not_none (map (page_result (config self) workers sql p) [0..<nat n]) = []
      then Inr None
      else Inr (Some (concat
        (not_none (map (page_result (config self) workers sql p) [0..<nat n])))))"
proof -
  from order have "set order = set [0..<nat n]" by (rule mset_eq_setD)
  then have so: "set order = {0..<nat n}" by simp
  have slots: "collect (map (\<lambda>k. snd (fetch_page (config self) (workers k) sql p k)) order)
      (replicate (nat n) None) = map (page_result (config self) workers sql p) [0..<nat n]"
    unfolding task_result by (rule collect_all[OF so])
  show ?thesis
    using count rows pages pool
    by (simp add: execute_query_with_parallel_pagination_def Let_def slots)
qed

lemma not_none_Some: "not_none (map (\<lambda>k. Some (f k)) ks) = map f ks"
  by (induction ks) auto

lemma not_none_nonempty: "Some x \<in> set xs \<Longrightarrow> not_none xs \<noteq> []"
  by (induction xs rule: not_none.induct) auto

text \<open>
  Claim C1. In a parallel fetch in which the task of every page returns a table, the value
  of the call is the concatenation of these tables in the order of the page numbers
  \<open>0, 1, \<dots>, n - 1\<close>, for every order in which the tasks complete (every permutation
  \<open>order\<close> of the pages). The count is not 0, there is at least one page and the pool has
  at least one worker.
\<close>

theorem parallel_pagination_page_order:
  assumes "execute_query self srv (count_query 8 sql_query) 300 (Some 1)
             = (s, Inr (Some count_df))"
    and "total_rows_of count_df = Inr (IntCell t)" and "t \<noteq> 0"
    and "total_pages_of (IntCell t) page_size = Inr n" and "0 < n"
    and "0 < max_workers"
    and "mset order = mset [0..<nat n]"
    and "\<forall>k<nat n. page_result (config self) workers sql_query page_size k = Some (pages k)"
  shows "execute_query_with_parallel_pagination self srv workers order sql_query page_size
           max_workers =
         (s, map (\<lambda>k. fetch_page (config self) (workers k) sql_query page_size k) [0..<nat n],
          Inr (Some (concat (map pages [0..<nat n]))))"
proof -
  from assms(8) have "map (page_result (config self) workers sql_query page_size) [0..<nat n]
      = map (\<lambda>k. Some (pages k)) [0..<nat n]"
    by simp
  then have v: "not_none (map (page_result (config self) workers sql_query page_size)
      [0..<nat n]) = map pages [0..<nat n]"
    by (simp only: not_none_Some)
  from assms(5) have "map pages [0..<nat n] \<noteq> []" by simp
  with parallel_assembled[OF assms(1,2,3,4,6,7), of workers] show ?thesis
    by (simp only: v if_False)
qed

text \<open>
  Claim C3. In a parallel fetch in which the task of some page returns no table and the
  task of some page returns one, the call raises nothing and does not return \<^verbatim>\<open>None\<close>: its
  value is the concatenation, in the order of the page numbers, of the tables of the pages
  that returned one. With 12 pages of 50,000 rows of which page 7 fails, the caller gets
  550,000 rows.
\<close>

theorem parallel_pagination_skips_failed_pages:
  assumes "execute_query self srv (count_query 8 sql_query) 300 (Some 1)
             = (s, Inr (Some count_df))"
    and "total_rows_of count_df = Inr (IntCell t)" and "t \<noteq> 0"
    and "total_pages_of (IntCell t) page_size = Inr n"
    and "0 < max_workers"
    and "mset order = mset [0..<nat n]"
    and "\<exists>k<nat n. page_result (config self) workers sql_query page_size k = None"
    and "\<exists>k<nat n. page_result (config self) workers sql_query page_size k \<noteq> None"
  shows "snd (snd (execute_query_with_parallel_pagination self srv workers order sql_query
           page_size max_workers)) =
         Inr (Some (concat (not_none
            (map (page_result (config self) workers sql_query page_size) [0..<nat n]))))"
proof -
  from assms(8) obtain k df where "k < nat n"
    "page_result (config self) workers sql_query page_size k = Some df" by auto
  then have "Some df \<in> set (map (page_result (config self) workers sql_query page_size)
      [0..<nat n])"
    by force
  then have "not_none (map (page_result (config self) workers sql_query page_size)
      [0..<nat n]) \<noteq> []"
    by (rule not_none_nonempty)
  with parallel_assembled[OF assms(1,2,3,4,5,6), of workers] show ?thesis
    by (simp only: if_False snd_conv)
qed


theorem parallel_pagination_page_order_witness:
  "mset [2, 0, 1] = mset [0..<nat 3]
   \<and> page_result (config demo_client)
          (\<lambda>k. demo_server (\<lambda>q. completed (ids [2 * int k, 2 * int k + 1])))
          ''SELECT id FROM t'' 2 2 = Some (ids [4, 5])
   \<and> snd (snd (execute_query_with_parallel_pagination demo_client
        (demo_server (\<lambda>q. completed (count_frame 6)))
        (\<lambda>k. demo_server (\<lambda>q. completed (ids [2 * int k, 2 * int k + 1])))
        [2, 0, 1] ''SELECT id FROM t'' 2 6))
      = Inr (Some (ids [0, 1, 2, 3, 4, 5]))"
proof -
  let ?srv = "demo_server (\<lambda>q. completed (count_frame 6))"
  let ?workers = "\<lambda>k. demo_server (\<lambda>q. completed (ids [2 * int k, 2 * int k + 1]))"
  have c: "execute_query demo_client ?srv (count_query 8 ''SELECT id FROM t'') 300 (Some 1)
     = (demo_client, Inr (Some (count_frame 6)))"
    by (simp add: client_defs demo_defs)
  have t: "total_rows_of (count_frame 6) = Inr (IntCell 6)"
    by (simp add: total_rows_of_def count_frame_def)
  have n: "total_pages_of (IntCell 6) 2 = Inr 3"
    by (simp add: total_pages_of_def wrap64_def)
  have ord: "mset [2, 0, 1] = mset [0..<nat 3]"
    by (simp add: upt_rec)
  have pg: "\<forall>k<nat 3. page_result (config demo_client) ?workers ''SELECT id FROM t'' 2 k
      = Some (ids [2 * int k, 2 * int k + 1])"
    by (simp add: page_result_def fetch_page_def client_defs demo_defs)
  have u: "[0..<nat 3] = [0, 1, 2]" by (simp add: upt_rec)
  from parallel_pagination_page_order[OF c t _ n _ _ ord pg, of 6]
  have "snd (snd (execute_query_with_parallel_pagination demo_client ?srv ?workers
        [2, 0, 1] ''SELECT id FROM t'' 2 6))
      = Inr (Some (concat (map (\<lambda>k. ids [2 * int k, 2 * int k + 1]) [0..<nat 3])))"
    by simp
  then have "snd (snd (execute_query_with_parallel_pagination demo_client ?srv ?workers
        [2, 0, 1] ''SELECT id FROM t'' 2 6)) = Inr (Some (ids [0, 1, 2, 3, 4, 5]))"
    unfolding u by (simp add: ids_def)
  moreover from pg have "page_result (config demo_client) ?workers ''SELECT id FROM t'' 2 2
      = Some (ids [4, 5])"
    by simp
  ultimately show ?thesis using ord by blast
qed

theorem parallel_pagination_skips_failed_pages_witness:
  "page_result (config demo_client)
        (\<lambda>k. if k = 7 then demo_server (\<lambda>q. Raises RequestException)
              else demo_server (\<lambda>q. completed (replicate 50000 [(''id'', IntCell 1)])))
        ''SELECT id FROM t'' 50000 7 = None
   \<and> page_result (config demo_client)
        (\<lambda>k. if k = 7 then demo_server (\<lambda>q. Raises RequestException)
              else demo_server (\<lambda>q. completed (replicate 50000 [(''id'', IntCell 1)])))
        ''SELECT id FROM t'' 50000 0 \<noteq> None
   \<and> snd (snd (execute_query_with_parallel_pagination demo_client
        (demo_server (\<lambda>q. completed (count_frame 600000)))
        (\<lambda>k. if k = 7 then demo_server (\<lambda>q. Raises RequestException)
              else demo_server (\<lambda>q. completed (replicate 50000 [(''id'', IntCell 1)])))
        (rev [0..<12]) ''SELECT id FROM t'' 50000 6))
      = Inr (Some (replicate 550000 [(''id'', IntCell 1)]))"
proof -
  let ?srv = "demo_server (\<lambda>q. completed (count_frame 600000))"
  let ?workers = "\<lambda>k. if k = 7 then demo_server (\<lambda>q. Raises RequestException)
              else demo_server (\<lambda>q. completed (replicate 50000 [(''id'', IntCell 1)]))"
  have c: "execute_query demo_client ?srv (count_query 8 ''SELECT id FROM t'') 300 (Some 1)
     = (demo_client, Inr (Some (count_frame 600000)))"
    by (simp add: client_defs demo_defs)
  have t: "total_rows_of (count_frame 600000) = Inr (IntCell 600000)"
    by (simp add: total_rows_of_def count_frame_def)
  have n: "total_pages_of (IntCell 600000) 50000 = Inr 12"
    by (simp add: total_pages_of_def wrap64_def)
  have ord: "mset (rev [0..<12]) = mset [0..<nat 12]"
    by simp
  have pg: "page_result (config demo_client) ?workers ''SELECT id FROM t'' 50000 k
      = (if k = 7 then None else Some (replicate 50000 [(''id'', IntCell 1)]))" for k
    by (simp add: page_result_def fetch_page_def client_defs demo_defs)
  have bad: "\<exists>k<nat 12. page_result (config demo_client) ?workers ''SELECT id FROM t'' 50000 k
      = None"
    by (rule exI[of _ 7]) (simp add: pg)
  have good: "\<exists>k<nat 12. page_result (config demo_client) ?workers ''SELECT id FROM t'' 50000 k
      \<noteq> None"
    by (rule exI[of _ 0]) (simp add: pg)
  have u: "[0..<nat 12] = [0, 1, 2, 3, 4, 5, 6, 7, 8, 9, 10, 11]" by (simp add: upt_rec)
  have rows: "concat (not_none (map (page_result (config demo_client) ?workers
      ''SELECT id FROM t'' 50000) [0..<nat 12])) = replicate 550000 [(''id'', IntCell 1)]"
    unfolding u by (simp add: pg replicate_add[symmetric])
  from parallel_pagination_skips_failed_pages[OF c t _ n _ ord bad good, of 6]
  have "snd (snd (execute_query_with_parallel_pagination demo_client ?srv ?workers
        (rev [0..<12]) ''SELECT id FROM t'' 50000 6))
      = Inr (Some (replicate 550000 [(''id'', IntCell 1)]))"
    unfolding rows by simp
  then show ?thesis by (simp add: pg)
qed

section \<open>The strategy selector\<close>

lemma auto_mode_count:
  assumes "execute_query self srv (count_query 12 sql_query) 300 (Some 1)
             = (s, Inr (Some count_df))"
    and "total_rows_of count_df = Inr (IntCell n)"
  shows "auto_mode self srv sql_query =
     (s, Inr (if n \<le> 50000 then ''single'' else if n \<le> 500000 then ''pagination''
              else ''parallel''))"
  using assms by (simp add: auto_mode_def)

text \<open>
  Claim C2. When the count query of the selector reports \<open>n\<close> rows, the mode \<^verbatim>\<open>auto\<close> runs
  the single query with the ceiling 100,000 for \<open>n \<le> 50,000\<close>, the sequential fetch with
  pages of 25,000 for \<open>50,000 < n \<le> 500,000\<close>, and the parallel fetch with pages of 50,000
  and 6 workers for \<open>n > 500,000\<close>: the call has the outcome of the engine chosen. So
  50,000 is single, 50,001 and 500,000 are sequential and 500,001 is parallel.
\<close>

theorem execute_query_optimized_thresholds:
  assumes "execute_query self srv (count_query 12 sql_query) 300 (Some 1)
             = (s, Inr (Some count_df))"
    and "total_rows_of count_df = Inr (IntCell n)"
  shows "(n \<le> 50000 \<longrightarrow>
            auto_mode self srv sql_query = (s, Inr ''single'')
            \<and> execute_query_optimized self srv workers order sql_query ''auto''
                = Some (execute_query s srv sql_query 300 (Some 100000)))
       \<and> (50000 < n \<and> n \<le> 500000 \<longrightarrow>
            auto_mode self srv sql_query = (s, Inr ''pagination'')
            \<and> execute_query_optimized self srv workers order sql_query ''auto''
                = execute_query_with_pagination s srv sql_query 25000)
       \<and> (500000 < n \<longrightarrow>
            auto_mode self srv sql_query = (s, Inr ''parallel'')
            \<and> execute_query_optimized self srv workers order sql_query ''auto''
                = (case execute_query_with_parallel_pagination s srv workers order sql_query
                          50000 6 of
                     (s', tasks, r) \<Rightarrow> Some (s', r)))"
  using auto_mode_count[OF assms]
  by (simp add: execute_query_optimized_def run_mode_def)

theorem execute_query_optimized_thresholds_witness:
  "auto_mode demo_client (demo_server (\<lambda>q. completed (count_frame 50000))) ''SELECT id FROM t''
     = (demo_client, Inr ''single'')
   \<and> auto_mode demo_client (demo_server (\<lambda>q. completed (count_frame 50001))) ''SELECT id FROM t''
     = (demo_client, Inr ''pagination'')
   \<and> auto_mode demo_client (demo_server (\<lambda>q. completed (count_frame 500000))) ''SELECT id FROM t''
     = (demo_client, Inr ''pagination'')
   \<and> auto_mode demo_client (demo_server (\<lambda>q. completed (count_frame 500001))) ''SELECT id FROM t''
     = (demo_client, Inr ''parallel'')
   \<and> execute_query_optimized demo_client (demo_server (\<lambda>q. completed (count_frame 50000)))
        (\<lambda>k. demo_server three_pages) [] ''SELECT id FROM t'' ''auto''
     = Some (demo_client, Inr (Some (count_frame 50000)))"
proof -
  have c: "execute_query demo_client (demo_server (\<lambda>q. completed (count_frame n)))
       (count_query 12 ''SELECT id FROM t'') 300 (Some 1)
     = (demo_client, Inr (Some (count_frame n)))" for n
    by (simp add: client_defs demo_defs)
  have t: "total_rows_of (count_frame n) = Inr (IntCell n)" for n
    by (simp add: total_rows_of_def count_frame_def)
  have r: "execute_query demo_client (demo_server (\<lambda>q. completed (count_frame 50000)))
       ''SELECT id FROM t'' 300 (Some 100000) = (demo_client, Inr (Some (count_frame 50000)))"
    by (simp add: client_defs demo_defs)
  from execute_query_optimized_thresholds[OF c t, of 50000 "\<lambda>k. demo_server three_pages" "[]"]
    execute_query_optimized_thresholds[OF c t, of 50001 "\<lambda>k. demo_server three_pages" "[]"]
    execute_query_optimized_thresholds[OF c t, of 500000 "\<lambda>k. demo_server three_pages" "[]"]
    execute_query_optimized_thresholds[OF c t, of 500001 "\<lambda>k. demo_server three_pages" "[]"]
    r
  show ?thesis by simp
qed

text \<open>
  Claim C6. When the count query of the selector gives no result, the mode \<^verbatim>\<open>auto\<close> runs the
  parallel fetch, with pages of 50,000 and 6 workers.
\<close>

theorem execute_query_optimized_estimate_fails:
  assumes "execute_query self srv (count_query 12 sql_query) 300 (Some 1) = (s, Inr None)"
  shows "auto_mode self srv sql_query = (s, Inr ''parallel'')
       \<and> execute_query_optimized self srv workers order sql_query ''auto''
           = (case execute_query_with_parallel_pagination s srv workers order sql_query
                     50000 6 of
                (s', tasks, r) \<Rightarrow> Some (s', r))"
  using assms by (simp add: execute_query_optimized_def run_mode_def auto_mode_def)

theorem execute_query_optimized_estimate_fails_witness:
  "execute_query demo_client (demo_server (\<lambda>q. Response 500 (Inl ValueError)))
       (count_query 12 ''SELECT id FROM t'') 300 (Some 1) = (demo_client, Inr None)
   \<and> auto_mode demo_client (demo_server (\<lambda>q. Response 500 (Inl ValueError)))
       ''SELECT id FROM t'' = (demo_client, Inr ''parallel'')
   \<and> execute_query_optimized demo_client (demo_server (\<lambda>q. Response 500 (Inl ValueError)))
        (\<lambda>k. demo_server three_pages) [] ''SELECT id FROM t'' ''auto''
       = (case execute_query_with_parallel_pagination demo_client
                 (demo_server (\<lambda>q. Response 500 (Inl ValueError)))
                 (\<lambda>k. demo_server three_pages) [] ''SELECT id FROM t'' 50000 6 of
                (s', tasks, r) \<Rightarrow> Some (s', r))"
proof -
  have c: "execute_query demo_client (demo_server (\<lambda>q. Response 500 (Inl ValueError)))
       (count_query 12 ''SELECT id FROM t'') 300 (Some 1) = (demo_client, Inr None)"
    by (simp add: client_defs demo_defs)
  from execute_query_optimized_estimate_fails[OF c] c show ?thesis by blast
qed

section \<open>The single query\<close>

lemma run_query_Some:
  "snd (run_query s srv q t m) = Some df \<longleftrightarrow>
     (\<exists>code result. post_dataset srv (headers s) (query_payload s q t m) = Response code (Inr result)
        \<and> \<not> (400 \<le> code \<and> code < 600) \<and> status result = Some ''completed''
        \<and> frame result = Inr df)"
  by (auto simp: run_query_def checked_def split: reply.splits sum.splits if_splits)

lemma run_query_not_completed:
  "post_dataset srv (headers s) (query_payload s q t m) = Response code (Inr result) \<Longrightarrow>
     status result \<noteq> Some ''completed'' \<Longrightarrow> snd (run_query s srv q t m) = None"
  by (simp add: run_query_def checked_def)

lemma run_query_reports:
  "post_dataset srv (headers s) (query_payload s q t m) = Response code (Inr result) \<Longrightarrow>
     \<not> (400 \<le> code \<and> code < 600) \<Longrightarrow> status result \<noteq> Some ''completed'' \<Longrightarrow>
     fst (run_query s srv q t m) =
       Query_failed_with_status (status result)
         # (case error result of Some msg \<Rightarrow> [Error_details msg] | None \<Rightarrow> [])"
  by (auto simp: run_query_def checked_def)

lemma execute_query_projections:
  "fst (execute_query self srv q t m) = fst (execute_query_logged self srv q t m)"
  "snd (execute_query self srv q t m) = snd (snd (execute_query_logged self srv q t m))"
  by (simp_all add: execute_query_def split: prod.split)

lemma execute_query_logged_posts:
  assumes "truthy_str (session_token self)"
    and "truthy_int (database_id (fst (execute_query_logged self srv q t m)))"
  shows "snd (execute_query_logged self srv q t m)
           = (fst (run_query (fst (execute_query_logged self srv q t m)) srv q t m),
              Inr (snd (run_query (fst (execute_query_logged self srv q t m)) srv q t m)))"
proof (cases "truthy_int (database_id self)")
  case True
  with assms show ?thesis
    by (simp add: execute_query_logged_def split: prod.split)
next
  case False
  then show ?thesis
  proof (cases rule: get_database_id_cases[where srv = srv])
    case (raises e)
    with assms False show ?thesis by (simp add: execute_query_logged_def)
  next
    case (found i)
    with assms False show ?thesis
      by (simp add: execute_query_logged_def Let_def split: if_splits prod.split)
  next
    case (missing lg)
    with assms False show ?thesis
      by (simp add: execute_query_logged_def Let_def truthy_int_def)
  qed
qed

lemma execute_query_logged_Some:
  assumes "snd (snd (execute_query_logged self srv q t m)) = Inr (Some df)"
  shows "truthy_str (session_token self)
       \<and> truthy_int (database_id (fst (execute_query_logged self srv q t m)))"
proof (cases "truthy_str (session_token self)")
  case False
  with assms show ?thesis by (simp add: execute_query_logged_def)
next
  case tok: True
  show ?thesis
  proof (cases "truthy_int (database_id self)")
    case True
    with tok show ?thesis by (simp add: execute_query_logged_def split: prod.split)
  next
    case False
    then show ?thesis
    proof (cases rule: get_database_id_cases[where srv = srv])
      case (raises e)
      with assms tok False show ?thesis by (simp add: execute_query_logged_def)
    next
      case (found i)
      with assms tok False show ?thesis
        by (simp add: execute_query_logged_def Let_def split: if_splits prod.split)
    next
      case (missing lg)
      with assms tok False show ?thesis
        by (simp add: execute_query_logged_def Let_def truthy_int_def)
    qed
  qed
qed

text \<open>
  Claim C7. \<^verbatim>\<open>execute_query\<close> returns a table only if the response to its request has a
  status code outside 400 to 599 and a payload whose status is \<^verbatim>\<open>'completed'\<close>. When the
  request is made and the payload has another status, the call fails, which for this
  client is the return of \<^verbatim>\<open>None\<close>; and when the status code is a successful one (200 among
  them), the error lines of the call are the status of the payload and, if the payload has
  one, the error text of the server, as the server gave them. Here \<open>s\<close> is the client after
  the call, with the database id resolved.
\<close>

theorem execute_query_needs_completed_status:
  assumes "s = fst (execute_query_logged self srv sql_query tmo maxr)"
  shows "(\<forall>df. snd (snd (execute_query_logged self srv sql_query tmo maxr)) = Inr (Some df) \<longrightarrow>
            (\<exists>code result.
               post_dataset srv (headers s) (query_payload s sql_query tmo maxr)
                 = Response code (Inr result)
               \<and> \<not> (400 \<le> code \<and> code < 600)
               \<and> status result = Some ''completed'' \<and> frame result = Inr df))
       \<and> (\<forall>code result.
            truthy_str (session_token self) \<and> truthy_int (database_id s)
            \<and> post_dataset srv (headers s) (query_payload s sql_query tmo maxr)
                 = Response code (Inr result)
            \<and> status result \<noteq> Some ''completed''
            \<longrightarrow> snd (snd (execute_query_logged self srv sql_query tmo maxr)) = Inr None
              \<and> snd (execute_query self srv sql_query tmo maxr) = Inr None
              \<and> (\<not> (400 \<le> code \<and> code < 600) \<longrightarrow>
                   fst (snd (execute_query_logged self srv sql_query tmo maxr)) =
                     Query_failed_with_status (status result)
                       # (case error result of
                            Some msg \<Rightarrow> [Error_details msg] | None \<Rightarrow> [])))"
proof (intro conjI allI impI)
  fix df
  assume r: "snd (snd (execute_query_logged self srv sql_query tmo maxr)) = Inr (Some df)"
  from execute_query_logged_Some[OF r]
    execute_query_logged_posts[of self srv sql_query tmo maxr] r assms
  have "snd (run_query s srv sql_query tmo maxr) = Some df" by simp
  then show "\<exists>code result.
               post_dataset srv (headers s) (query_payload s sql_query tmo maxr)
                 = Response code (Inr result)
               \<and> \<not> (400 \<le> code \<and> code < 600)
               \<and> status result = Some ''completed'' \<and> frame result = Inr df"
    by (simp only: run_query_Some)
next
  fix code result
  assume a: "truthy_str (session_token self) \<and> truthy_int (database_id s)
            \<and> post_dataset srv (headers s) (query_payload s sql_query tmo maxr)
                 = Response code (Inr result)
            \<and> status result \<noteq> Some ''completed''"
  then have n: "snd (run_query s srv sql_query tmo maxr) = None"
    using run_query_not_completed by blast
  from a assms execute_query_logged_posts[of self srv sql_query tmo maxr]
  have p: "snd (execute_query_logged self srv sql_query tmo maxr)
      = (fst (run_query s srv sql_query tmo maxr), Inr (snd (run_query s srv sql_query tmo maxr)))"
    by simp
  from p n show "snd (snd (execute_query_logged self srv sql_query tmo maxr)) = Inr None"
    by simp
  then show "snd (execute_query self srv sql_query tmo maxr) = Inr None"
    by (simp add: execute_query_projections)
  assume "\<not> (400 \<le> code \<and> code < 600)"
  with a have "fst (run_query s srv sql_query tmo maxr) =
      Query_failed_with_status (status result)
        # (case error result of Some msg \<Rightarrow> [Error_details msg] | None \<Rightarrow> [])"
    using run_query_reports by blast
  with p show "fst (snd (execute_query_logged self srv sql_query tmo maxr)) =
      Query_failed_with_status (status result)
        # (case error result of Some msg \<Rightarrow> [Error_details msg] | None \<Rightarrow> [])"
    by simp
qed

theorem execute_query_needs_completed_status_witness:
  "demo_client = fst (execute_query_logged demo_client
       (demo_server (\<lambda>q. failed ''Unknown table t'')) ''SELECT id FROM t'' 300 None)
   \<and> truthy_str (session_token demo_client) \<and> truthy_int (database_id demo_client)
   \<and> post_dataset (demo_server (\<lambda>q. failed ''Unknown table t'')) (headers demo_client)
        (query_payload demo_client ''SELECT id FROM t'' 300 None)
       = Response 200 (Inr \<lparr>status = Some ''failed'', error = Some ''Unknown table t'',
            frame = Inr []\<rparr>)
   \<and> status \<lparr>status = Some ''failed'', error = Some ''Unknown table t'', frame = Inr []\<rparr>
        \<noteq> Some ''completed''
   \<and> \<not> (400 \<le> (200 :: nat) \<and> (200 :: nat) < 600)
   \<and> execute_query_logged demo_client (demo_server (\<lambda>q. failed ''Unknown table t''))
       ''SELECT id FROM t'' 300 None
      = (demo_client,
         [Query_failed_with_status (Some ''failed''), Error_details ''Unknown table t''],
         Inr None)"
proof -
  let ?srv = "demo_server (\<lambda>q. failed ''Unknown table t'')"
  let ?result = "\<lparr>status = Some ''failed'', error = Some ''Unknown table t'',
      frame = Inr ([] :: dataframe)\<rparr>"
  have s: "demo_client = fst (execute_query_logged demo_client ?srv ''SELECT id FROM t'' 300 None)"
    by (simp add: client_defs demo_defs)
  have h: "truthy_str (session_token demo_client) \<and> truthy_int (database_id demo_client)
     \<and> post_dataset ?srv (headers demo_client)
          (query_payload demo_client ''SELECT id FROM t'' 300 None)
        = Response 200 (Inr ?result)
     \<and> status ?result \<noteq> Some ''completed''"
    by (simp add: client_defs demo_defs)
  have c: "\<not> (400 \<le> (200 :: nat) \<and> (200 :: nat) < 600)" by simp
  from execute_query_needs_completed_status[OF s] h
  have "snd (snd (execute_query_logged demo_client ?srv ''SELECT id FROM t'' 300 None))
          = Inr None
      \<and> (\<not> (400 \<le> (200 :: nat) \<and> (200 :: nat) < 600) \<longrightarrow>
           fst (snd (execute_query_logged demo_client ?srv ''SELECT id FROM t'' 300 None)) =
             Query_failed_with_status (status ?result)
               # (case error ?result of Some msg \<Rightarrow> [Error_details msg] | None \<Rightarrow> []))"
    by blast
  with c have "snd (execute_query_logged demo_client ?srv ''SELECT id FROM t'' 300 None)
      = ([Query_failed_with_status (Some ''failed''), Error_details ''Unknown table t''],
         Inr None)"
    by (simp add: prod_eq_iff)
  with s have "execute_query_logged demo_client ?srv ''SELECT id FROM t'' 300 None
      = (demo_client,
         [Query_failed_with_status (Some ''failed''), Error_details ''Unknown table t''],
         Inr None)"
    by (metis prod.collapse)
  with s h c show ?thesis by blast
qed

section \<open>The session of a page task\<close>

text \<open>
  A page task whose \<^verbatim>\<open>execute_query\<close> returns (a table or \<^verbatim>\<open>None\<close>) has logged out when it
  ends. A task whose \<^verbatim>\<open>execute_query\<close> raises goes to the handler, past the call of
  \<^verbatim>\<open>logout\<close>, and ends with the client as the query left it.
\<close>

lemma fetch_page_logs_out:
  assumes "authenticate (new_client cfg) wsrv = (tc, Inr True)"
    and "execute_query tc wsrv (paginated_query sql_query page_size (int k * page_size)) 300
           (Some page_size) = (tc', Inr df)"
  shows "\<not> truthy_str (session_token (fst (fetch_page cfg wsrv sql_query page_size k)))"
proof -
  have "\<not> truthy_str (session_token (logout tc' wsrv))"
    by (cases "truthy_str (session_token tc')")
      (simp_all add: logout_def truthy_str_def split: reply.split)
  with assms show ?thesis
    by (simp add: fetch_page_def Let_def split: option.split)
qed

lemma fetch_page_skips_logout:
  assumes "authenticate (new_client cfg) wsrv = (tc, Inr True)"
    and "execute_query tc wsrv (paginated_query sql_query page_size (int k * page_size)) 300
           (Some page_size) = (tc', Inl e)"
  shows "fetch_page cfg wsrv sql_query page_size k = (tc', (None, k))"
  using assms by (simp add: fetch_page_def)

text \<open>
  Claim C8 asks that a page task which has logged in releases its session on every path.
  The task of page 7 against a server that accepts the login and whose database listing
  makes \<^verbatim>\<open>get_database_id\<close> raise \<^verbatim>\<open>AttributeError\<close> ends with \<^verbatim>\<open>(None, 7)\<close> and with the
  session token and the session header still in place.
\<close>

theorem fetch_page_query_raises_no_logout:
  "authenticate (new_client demo_config) array_listing_server =
     (\<lparr>config = demo_config, headers = [''X-Metabase-Session'' \<mapsto> Some ''tok''],
       session_token = Some ''tok'', database_id = None\<rparr>, Inr True)
   \<and> fetch_page demo_config array_listing_server ''SELECT id FROM t'' 50000 7 =
     (\<lparr>config = demo_config, headers = [''X-Metabase-Session'' \<mapsto> Some ''tok''],
       session_token = Some ''tok'', database_id = None\<rparr>, (None, 7))"
  by (simp add: fetch_page_def client_defs demo_defs array_listing_server_def)

end
